theory Spec2Isabelle
  imports Main "HOL-Library.Sublist"
begin

section \<open>Timestamps and durations\<close>

text \<open>
  The source works on Python's \<^verbatim>\<open>datetime\<close> and \<^verbatim>\<open>timedelta\<close> values.

  A \<^verbatim>\<open>datetime\<close> is either naive or aware. A naive one is modelled by its number of
  microseconds since \<^verbatim>\<open>datetime.min\<close> (0001-01-01T00:00:00). An aware one carries
  its \<^verbatim>\<open>tzinfo\<close> object (the model keeps the identity of that object, a number), its
  local time in microseconds since \<^verbatim>\<open>datetime.min\<close>, and the offset from UTC that
  the \<^verbatim>\<open>tzinfo\<close> object gives it, in microseconds. A \<^verbatim>\<open>tzinfo\<close> object is taken
  to give every datetime that carries it an offset, as \<^verbatim>\<open>timezone\<close> and
  \<^verbatim>\<open>zoneinfo\<close> do; a datetime whose \<^verbatim>\<open>utcoffset()\<close> is \<^verbatim>\<open>None\<close> is naive.

  A \<^verbatim>\<open>timedelta\<close> is modelled by its total number of microseconds. Python keeps it
  normalised as days, seconds and microseconds, and refuses to build one whose number of
  days has a magnitude above 999999999: the constructor raises \<^verbatim>\<open>OverflowError\<close>.
  Subtraction and negation of timedeltas build their result with that constructor.
\<close>

type_synonym timedelta = int

datatype datetime = Naive int | Aware nat int int

datatype error = OverflowError | TypeError

fun tzinfo :: "datetime \<Rightarrow> nat option" where
  "tzinfo (Naive us) = None"
| "tzinfo (Aware z us off) = Some z"

fun utcoffset :: "datetime \<Rightarrow> timedelta option" where
  "utcoffset (Naive us) = None"
| "utcoffset (Aware z us off) = Some off"

fun local_us :: "datetime \<Rightarrow> int" where
  "local_us (Naive us) = us"
| "local_us (Aware z us off) = us"

definition datetime_max_us :: int where
  "datetime_max_us = 315537897599999999"

fun valid_datetime :: "datetime \<Rightarrow> bool" where
  "valid_datetime (Naive us) \<longleftrightarrow> 0 \<le> us \<and> us \<le> datetime_max_us"
| "valid_datetime (Aware z us off) \<longleftrightarrow>
     0 \<le> us \<and> us \<le> datetime_max_us \<and> - 86400000000 < off \<and> off < 86400000000"

definition timedelta_min :: timedelta where
  "timedelta_min = - 86399999913600000000"

definition timedelta_max :: timedelta where
  "timedelta_max = 86399999999999999999"

definition timedelta_days :: "timedelta \<Rightarrow> int" where
  "timedelta_days us = us div 86400000000"

definition new_delta :: "int \<Rightarrow> error + timedelta" where
  "new_delta us =
     (if \<bar>timedelta_days us\<bar> \<le> 999999999 then Inr us else Inl OverflowError)"

definition timedelta_sub :: "timedelta \<Rightarrow> timedelta \<Rightarrow> error + timedelta" where
  "timedelta_sub a b = new_delta (a - b)"

definition timedelta_neg :: "timedelta \<Rightarrow> error + timedelta" where
  "timedelta_neg a = new_delta (- a)"

definition timedelta_abs :: "timedelta \<Rightarrow> error + timedelta" where
  "timedelta_abs a = (if timedelta_days a < 0 then timedelta_neg a else Inr a)"

text \<open>
  The subtraction of two datetimes, as \<^verbatim>\<open>datetime.__sub__\<close> does it: with the same
  \<^verbatim>\<open>tzinfo\<close> on both sides (none on both sides included) the local times are
  subtracted; otherwise both offsets are asked for, a naive operand beside an aware one
  raises \<^verbatim>\<open>TypeError\<close>, and two aware operands are subtracted as instants of UTC. The
  difference of two datetimes always fits a \<^verbatim>\<open>timedelta\<close>.
\<close>

definition datetime_sub :: "datetime \<Rightarrow> datetime \<Rightarrow> error + timedelta" where
  "datetime_sub a b =
     (let base = local_us a - local_us b in
      if tzinfo a = tzinfo b then Inr base
      else
        let myoff = utcoffset a; otoff = utcoffset b in
        if myoff = otoff then Inr base
        else if myoff = None \<or> otoff = None then Inl TypeError
        else Inr (base + the otoff - the myoff))"

definition minutes :: "int \<Rightarrow> timedelta" where
  "minutes n = n * 60000000"

definition seconds :: "int \<Rightarrow> timedelta" where
  "seconds n = n * 1000000"

definition days :: "int \<Rightarrow> timedelta" where
  "days n = n * 86400000000"

section \<open>The Pod record and its uptime\<close>

record pod =
  name :: string
  status :: string
  start_time :: datetime
  failure_time :: "datetime option"

definition terminal_states :: "string list" where
  "terminal_states = [''Failed'', ''Error'', ''CrashLoopBackOff'']"

text \<open>
  \<^verbatim>\<open>Pod.uptime\<close>. The first argument is the reading of the wall clock:
  \<^verbatim>\<open>datetime.now()\<close> gives it as a naive datetime. A \<^verbatim>\<open>datetime\<close> object is
  always truthy, so \<^verbatim>\<open>self.failure_time\<close> as a condition tests for \<^verbatim>\<open>None\<close>. An
  exception of a subtraction leaves the property; the model returns it as \<open>Inl\<close>.
\<close>

definition uptime :: "int \<Rightarrow> pod \<Rightarrow> error + timedelta" where
  "uptime now p =
     (if failure_time p \<noteq> None \<and> status p \<in> set terminal_states
        then datetime_sub (the (failure_time p)) (start_time p)
      else if status p = ''Running''
        then datetime_sub (Naive now) (start_time p)
      else Inr 0)"

section \<open>The detector\<close>

text \<open>
  \<^verbatim>\<open>detect_time_failure_pattern\<close>. The \<^verbatim>\<open>for\<close> loop is \<open>detect_loop\<close>: its
  accumulator is \<^verbatim>\<open>matching_pods\<close>, and \<open>clk i\<close> is the reading of the wall clock
  during iteration \<open>i\<close>. An exception raised in the loop body, by \<^verbatim>\<open>pod.uptime\<close> or
  by the timedelta arithmetic, leaves the function; the model returns it as \<open>Inl\<close>.
\<close>

type_synonym clock = "nat \<Rightarrow> int"

fun detect_loop ::
  "clock \<Rightarrow> nat \<Rightarrow> pod list \<Rightarrow> timedelta \<Rightarrow> timedelta \<Rightarrow> pod list \<Rightarrow> error + pod list" where
  "detect_loop clk i [] expected_failure_time tolerance matching_pods = Inr matching_pods"
| "detect_loop clk i (p # pods) expected_failure_time tolerance matching_pods =
     (if status p \<in> set terminal_states \<and> failure_time p \<noteq> None then
        (case uptime (clk i) p of
           Inl err \<Rightarrow> Inl err
         | Inr up \<Rightarrow>
             (case timedelta_sub up expected_failure_time of
                Inl err \<Rightarrow> Inl err
              | Inr d \<Rightarrow>
                  (case timedelta_abs d of
                     Inl err \<Rightarrow> Inl err
                   | Inr time_diff \<Rightarrow>
                       if time_diff \<le> tolerance
                       then detect_loop clk (Suc i) pods expected_failure_time tolerance
                              (matching_pods @ [p])
                       else detect_loop clk (Suc i) pods expected_failure_time tolerance
                              matching_pods)))
      else detect_loop clk (Suc i) pods expected_failure_time tolerance matching_pods)"

definition detect_time_failure_pattern ::
  "clock \<Rightarrow> pod list \<Rightarrow> timedelta \<Rightarrow> timedelta \<Rightarrow> error + pod list" where
  "detect_time_failure_pattern clk pods expected_failure_time tolerance =
     detect_loop clk 0 pods expected_failure_time tolerance []"

definition default_expected_failure_time :: timedelta where
  "default_expected_failure_time = minutes 10"

definition default_tolerance :: timedelta where
  "default_tolerance = seconds 30"

section \<open>Vocabulary of the specification\<close>

text \<open>
  The two gates of the loop (steps 1 and 2 of the algorithm); the deviation of step 4,
  which exists when the uptime does; the test of step 5; the order of two timestamps, as
  Python's \<^verbatim>\<open><\<close> decides it (a naive timestamp and an aware one cannot be compared);
  and the exception that the loop body raises on a pod, if it raises one: the
  \<^verbatim>\<open>TypeError\<close> of the datetime subtraction, or the \<^verbatim>\<open>OverflowError\<close> of the
  timedelta subtraction when \<open>uptime - expected_failure_time\<close> is not a timedelta.
\<close>

definition passes_gates :: "pod \<Rightarrow> bool" where
  "passes_gates p \<longleftrightarrow> status p \<in> set terminal_states \<and> failure_time p \<noteq> None"

definition deviation :: "int \<Rightarrow> pod \<Rightarrow> timedelta \<Rightarrow> error + timedelta" where
  "deviation now p expected_failure_time =
     (case uptime now p of
        Inl err \<Rightarrow> Inl err
      | Inr up \<Rightarrow> Inr \<bar>up - expected_failure_time\<bar>)"

definition within_tolerance :: "int \<Rightarrow> pod \<Rightarrow> timedelta \<Rightarrow> timedelta \<Rightarrow> bool" where
  "within_tolerance now p expected_failure_time tolerance =
     (case deviation now p expected_failure_time of
        Inl err \<Rightarrow> False
      | Inr d \<Rightarrow> d \<le> tolerance)"

definition datetime_lt :: "datetime \<Rightarrow> datetime \<Rightarrow> error + bool" where
  "datetime_lt a b =
     (case datetime_sub a b of Inl err \<Rightarrow> Inl err | Inr d \<Rightarrow> Inr (d < 0))"

definition in_timedelta_range :: "int \<Rightarrow> bool" where
  "in_timedelta_range us \<longleftrightarrow> timedelta_min \<le> us \<and> us \<le> timedelta_max"

definition pod_error :: "timedelta \<Rightarrow> pod \<Rightarrow> error option" where
  "pod_error expected_failure_time p =
     (if passes_gates p then
        (case datetime_sub (the (failure_time p)) (start_time p) of
           Inl err \<Rightarrow> Some err
         | Inr up \<Rightarrow>
             if in_timedelta_range (up - expected_failure_time) then None
             else Some OverflowError)
      else None)"

fun first_error :: "timedelta \<Rightarrow> pod list \<Rightarrow> error option" where
  "first_error expected_failure_time [] = None"
| "first_error expected_failure_time (p # pods) =
     (case pod_error expected_failure_time p of
        Some err \<Rightarrow> Some err
      | None \<Rightarrow> first_error expected_failure_time pods)"

definition matches :: "timedelta \<Rightarrow> timedelta \<Rightarrow> pod \<Rightarrow> bool" where
  "matches expected_failure_time tolerance p \<longleftrightarrow>
     passes_gates p \<and>
     (case datetime_sub (the (failure_time p)) (start_time p) of
        Inl err \<Rightarrow> False
      | Inr up \<Rightarrow> \<bar>up - expected_failure_time\<bar> \<le> tolerance)"

section \<open>Inputs of the scenarios\<close>

text \<open>
  The dataclass constructor \<^verbatim>\<open>Pod(name, status, start_time, failure_time=None)\<close>, the
  \<^verbatim>\<open>base_time\<close> of the tests (here 2025-11-29T08:00:00, in microseconds), a wall
  clock that gives the same reading at every call, the \<^verbatim>\<open>tzinfo\<close> object
  \<^verbatim>\<open>timezone.utc\<close>, and what it means for the timestamps of a pod to be
  \<^verbatim>\<open>datetime\<close> values and to be all naive.
\<close>

definition Pod :: "string \<Rightarrow> string \<Rightarrow> datetime \<Rightarrow> datetime option \<Rightarrow> pod" where
  "Pod n s st ft = \<lparr>name = n, status = s, start_time = st, failure_time = ft\<rparr>"

definition base_time :: int where
  "base_time = 63900000000000000"

definition fixed_clock :: "int \<Rightarrow> clock" where
  "fixed_clock d i = d"

definition utc :: nat where
  "utc = 0"

definition valid_pod :: "pod \<Rightarrow> bool" where
  "valid_pod p \<longleftrightarrow>
     valid_datetime (start_time p) \<and>
     (case failure_time p of None \<Rightarrow> True | Some f \<Rightarrow> valid_datetime f)"

definition same_awareness :: "pod \<Rightarrow> bool" where
  "same_awareness p \<longleftrightarrow>
     (case failure_time p of
        None \<Rightarrow> True
      | Some f \<Rightarrow> (utcoffset f = None) = (utcoffset (start_time p) = None))"

section \<open>Timedelta and datetime arithmetic\<close>

lemma new_delta_range:
  "new_delta us = (if in_timedelta_range us then Inr us else Inl OverflowError)"
  unfolding new_delta_def in_timedelta_range_def timedelta_days_def
    timedelta_min_def timedelta_max_def
  by auto

lemma timedelta_days_neg_iff: "timedelta_days us < 0 \<longleftrightarrow> us < 0"
  unfolding timedelta_days_def by auto

lemma timedelta_abs_in_range:
  "in_timedelta_range us \<Longrightarrow> timedelta_abs us = Inr \<bar>us\<bar>"
  unfolding timedelta_abs_def timedelta_neg_def new_delta_range timedelta_days_neg_iff
  unfolding in_timedelta_range_def timedelta_min_def timedelta_max_def
  by auto

lemma datetime_sub_naive: "datetime_sub (Naive a) (Naive b) = Inr (a - b)"
  by (simp add: datetime_sub_def)

lemma datetime_sub_aware:
  "datetime_sub (Aware z a oa) (Aware z' b ob) =
     Inr (if z = z' then a - b else (a - oa) - (b - ob))"
  by (simp add: datetime_sub_def Let_def)

lemma datetime_sub_naive_aware: "datetime_sub (Naive a) (Aware z b ob) = Inl TypeError"
  by (simp add: datetime_sub_def)

lemma datetime_sub_aware_naive: "datetime_sub (Aware z a oa) (Naive b) = Inl TypeError"
  by (simp add: datetime_sub_def)

lemmas datetime_sub_simps =
  datetime_sub_naive datetime_sub_aware datetime_sub_naive_aware datetime_sub_aware_naive

lemma datetime_sub_error:
  "datetime_sub a b = Inl err \<longleftrightarrow>
     err = TypeError \<and> (utcoffset a = None) \<noteq> (utcoffset b = None)"
  by (cases a; cases b) (auto simp: datetime_sub_simps)

lemma datetime_sub_bounded:
  assumes "valid_datetime a" and "valid_datetime b" and "datetime_sub a b = Inr d"
  shows "\<bar>d\<bar> \<le> 315538070400000000"
  using assms
  by (cases a; cases b) (auto simp: datetime_sub_simps datetime_max_us_def split: if_splits)

lemma uptime_gated:
  "passes_gates p \<Longrightarrow> uptime now p = datetime_sub (the (failure_time p)) (start_time p)"
  unfolding passes_gates_def uptime_def by simp

section \<open>The loop as a filter\<close>

lemma detect_loop_skip:
  assumes "\<not> passes_gates p"
  shows "detect_loop clk i (p # pods) e t acc = detect_loop clk (Suc i) pods e t acc"
proof -
  have "(status p \<in> set terminal_states \<and> failure_time p \<noteq> None) = False"
    using assms by (simp only: passes_gates_def)
  then show ?thesis
    by (simp only: detect_loop.simps if_False)
qed

lemma detect_loop_raise:
  assumes "pod_error e p = Some err"
  shows "detect_loop clk i (p # pods) e t acc = Inl err"
proof -
  have g: "passes_gates p"
    using assms by (simp add: pod_error_def split: if_splits)
  then have c: "(status p \<in> set terminal_states \<and> failure_time p \<noteq> None) = True"
    by (simp add: passes_gates_def)
  show ?thesis
  proof (cases "datetime_sub (the (failure_time p)) (start_time p)")
    case (Inl x)
    then have "x = err"
      using assms g by (simp add: pod_error_def)
    then have "uptime (clk i) p = Inl err"
      using Inl by (simp add: uptime_gated [OF g])
    then show ?thesis
      by (simp only: detect_loop.simps c if_True sum.case)
  next
    case (Inr up)
    then have u: "uptime (clk i) p = Inr up"
      by (simp add: uptime_gated [OF g])
    have "\<not> in_timedelta_range (up - e)" and "err = OverflowError"
      using assms g Inr by (auto simp: pod_error_def split: if_splits)
    then have "timedelta_sub up e = Inl err"
      by (simp add: timedelta_sub_def new_delta_range)
    then show ?thesis
      by (simp only: detect_loop.simps c if_True u sum.case)
  qed
qed

lemma detect_loop_test:
  assumes "passes_gates p" and "pod_error e p = None"
  shows "detect_loop clk i (p # pods) e t acc =
           detect_loop clk (Suc i) pods e t (if matches e t p then acc @ [p] else acc)"
proof -
  have c: "(status p \<in> set terminal_states \<and> failure_time p \<noteq> None) = True"
    using assms(1) by (simp add: passes_gates_def)
  obtain up where d: "datetime_sub (the (failure_time p)) (start_time p) = Inr up"
    and r: "in_timedelta_range (up - e)"
    using assms by (auto simp: pod_error_def split: sum.splits if_splits)
  have u: "uptime (clk i) p = Inr up"
    using d by (simp add: uptime_gated [OF assms(1)])
  have s: "timedelta_sub up e = Inr (up - e)"
    using r by (simp add: timedelta_sub_def new_delta_range)
  have a: "timedelta_abs (up - e) = Inr \<bar>up - e\<bar>"
    using r by (rule timedelta_abs_in_range)
  have m: "matches e t p \<longleftrightarrow> \<bar>up - e\<bar> \<le> t"
    using assms(1) d by (simp add: matches_def)
  show ?thesis
    by (simp only: detect_loop.simps c if_True u s a m sum.case
        if_distrib [of "detect_loop clk (Suc i) pods e t"])
qed

lemma detect_loop_filter:
  "detect_loop clk i pods e t acc =
     (case first_error e pods of
        None \<Rightarrow> Inr (acc @ filter (matches e t) pods)
      | Some err \<Rightarrow> Inl err)"
proof (induction pods arbitrary: i acc)
  case Nil
  show ?case by simp
next
  case (Cons p pods)
  show ?case
  proof (cases "pod_error e p")
    case (Some err)
    then show ?thesis
      by (simp add: detect_loop_raise [OF Some] del: detect_loop.simps)
  next
    case None
    show ?thesis
    proof (cases "passes_gates p")
      case False
      then have "\<not> matches e t p"
        by (simp add: matches_def)
      then show ?thesis
        by (simp add: detect_loop_skip [OF False] Cons.IH None del: detect_loop.simps
            split: option.split)
    next
      case True
      show ?thesis
        by (simp add: detect_loop_test [OF True None] Cons.IH None del: detect_loop.simps
            split: option.split)
    qed
  qed
qed

lemma detect_filter:
  "detect_time_failure_pattern clk pods e t =
     (case first_error e pods of
        None \<Rightarrow> Inr (filter (matches e t) pods)
      | Some err \<Rightarrow> Inl err)"
  by (simp add: detect_time_failure_pattern_def detect_loop_filter del: detect_loop.simps
      split: option.split)

section \<open>Facts shared by the properties\<close>

lemmas eval_defs =
  detect_time_failure_pattern_def uptime_def deviation_def within_tolerance_def
  datetime_sub_def Let_def timedelta_sub_def timedelta_abs_def
  timedelta_neg_def new_delta_def timedelta_days_def terminal_states_def Pod_def
  base_time_def fixed_clock_def utc_def minutes_def seconds_def days_def
  default_expected_failure_time_def default_tolerance_def timedelta_min_def
  timedelta_max_def

lemmas error_defs =
  pod_error_def passes_gates_def in_timedelta_range_def

lemma terminal_states_set:
  "set terminal_states = {''Failed'', ''Error'', ''CrashLoopBackOff''}"
  by (simp add: terminal_states_def)

lemma deviation_gated:
  "passes_gates p \<Longrightarrow>
     deviation now p e =
       (case datetime_sub (the (failure_time p)) (start_time p) of
          Inl err \<Rightarrow> Inl err
        | Inr up \<Rightarrow> Inr \<bar>up - e\<bar>)"
  by (simp add: deviation_def uptime_gated)

lemma matches_within:
  "matches e t p \<longleftrightarrow> passes_gates p \<and> within_tolerance now p e t"
  by (cases "passes_gates p")
    (auto simp: matches_def within_tolerance_def deviation_gated split: sum.splits)

lemma first_error_None_iff:
  "first_error e pods = None \<longleftrightarrow> list_all (\<lambda>p. pod_error e p = None) pods"
  by (induction pods) (auto split: option.splits)

lemma first_error_Some:
  "first_error e pods = Some err \<Longrightarrow> \<exists>p\<in>set pods. pod_error e p = Some err"
  by (induction pods) (auto split: option.splits)

lemma detect_result:
  assumes "detect_time_failure_pattern clk pods e t = Inr r"
  shows "first_error e pods = None" and "r = filter (matches e t) pods"
  using assms by (auto simp: detect_filter split: option.splits)

lemma first_error_subset:
  assumes "first_error e pods = None" and "set qs \<subseteq> set pods"
  shows "first_error e qs = None"
  using assms unfolding first_error_None_iff list_all_iff by blast

lemma pod_error_None_iff:
  "pod_error e p = None \<longleftrightarrow>
     (passes_gates p \<longrightarrow>
        (\<exists>up. datetime_sub (the (failure_time p)) (start_time p) = Inr up
              \<and> in_timedelta_range (up - e)))"
  by (auto simp: pod_error_def split: sum.splits)

lemma pod_error_bounded:
  assumes "valid_pod p" and "same_awareness p" and "\<bar>e\<bar> \<le> days 996347938"
  shows "pod_error e p = None"
proof (cases "passes_gates p")
  case False
  then show ?thesis
    by (simp add: pod_error_def)
next
  case True
  then obtain f where f: "failure_time p = Some f"
    by (auto simp: passes_gates_def)
  have v: "valid_datetime f" "valid_datetime (start_time p)"
    using assms(1) f by (simp_all add: valid_pod_def)
  have "(utcoffset f = None) = (utcoffset (start_time p) = None)"
    using assms(2) f by (simp add: same_awareness_def)
  then have "\<forall>err. datetime_sub f (start_time p) \<noteq> Inl err"
    by (simp add: datetime_sub_error)
  then obtain up where u: "datetime_sub f (start_time p) = Inr up"
    by (cases "datetime_sub f (start_time p)") auto
  have "\<bar>up\<bar> \<le> 315538070400000000"
    using v u by (rule datetime_sub_bounded)
  moreover have "\<bar>e\<bar> \<le> 86084461843200000000"
    using assms(3) by (simp add: days_def)
  ultimately have "in_timedelta_range (up - e)"
    unfolding in_timedelta_range_def timedelta_min_def timedelta_max_def
    by linarith
  then show ?thesis
    using True f u by (simp add: pod_error_def)
qed

lemma first_error_bounded:
  assumes "list_all valid_pod pods" and "list_all same_awareness pods"
    and "\<bar>e\<bar> \<le> days 996347938"
  shows "first_error e pods = None"
  using assms unfolding first_error_None_iff list_all_iff
  by (auto intro: pod_error_bounded)

lemma negative_tolerance_no_match:
  "t < 0 \<Longrightarrow> filter (matches e t) pods = []"
proof -
  assume "t < 0"
  then have "\<not> matches e t p" for p
    unfolding matches_def by (auto split: sum.splits)
  then show ?thesis
    by simp
qed

section \<open>Properties of the detector\<close>

text \<open>
  C1 (as amended). \<open>detect_time_failure_pattern\<close> returns a list exactly when the loop body
  raises on no pod, that is when every pod that passes the two gates has two timestamps
  that can be subtracted (both naive or both aware) and an
  \<open>uptime - expected_failure_time\<close> that is a representable timedelta. The list is then
  the input filtered by "passes the gates and deviation \<open>\<le>\<close> tolerance": a sub-sequence of
  the input, made of unchanged input elements in their input order. Otherwise the call
  raises the exception of the first pod on which the loop body raises, a
  \<^verbatim>\<open>TypeError\<close> or an \<^verbatim>\<open>OverflowError\<close>, and nothing is returned. The empty
  input yields the empty output.
\<close>

theorem detect_returns_filtered_subsequence:
  "detect_time_failure_pattern clk pods e t =
     (case first_error e pods of
        None \<Rightarrow> Inr (filter (\<lambda>p. passes_gates p \<and> within_tolerance now p e t) pods)
      | Some err \<Rightarrow> Inl err)
   \<and> subseq (filter (\<lambda>p. passes_gates p \<and> within_tolerance now p e t) pods) pods
   \<and> detect_time_failure_pattern clk [] e t = Inr []"
proof -
  have m: "matches e t = (\<lambda>p. passes_gates p \<and> within_tolerance now p e t)"
    by (rule ext) (rule matches_within)
  have "detect_time_failure_pattern clk pods e t =
     (case first_error e pods of
        None \<Rightarrow> Inr (filter (\<lambda>p. passes_gates p \<and> within_tolerance now p e t) pods)
      | Some err \<Rightarrow> Inl err)"
    using detect_filter [of clk pods e t] unfolding m .
  moreover have "detect_time_failure_pattern clk [] e t = Inr []"
    by (simp add: detect_time_failure_pattern_def)
  ultimately show ?thesis
    by simp
qed

text \<open>
  The custom-parameter test with a running pod added: an expected failure time of 5
  minutes and a tolerance of 15 seconds keep the pods that ran 5 minutes 10 seconds and
  4 minutes 50 seconds, in their input order, and drop the running pod and the pod that
  ran 10 minutes. With an aware failure time beside a naive start time on its third pod,
  the same call raises \<^verbatim>\<open>TypeError\<close>.
\<close>

theorem detect_returns_filtered_subsequence_witness:
  "first_error (minutes 5)
     [Pod ''pod-1'' ''Failed'' (Naive (base_time - seconds 310))
        (Some (Naive (base_time - seconds 10))),
      Pod ''pod-2'' ''Running'' (Naive (base_time - seconds 290)) None,
      Pod ''pod-3'' ''Failed'' (Naive (base_time - minutes 10)) (Some (Naive base_time)),
      Pod ''pod-4'' ''Error'' (Naive (base_time - seconds 290))
        (Some (Naive (base_time + seconds 10)))]
   = None
   \<and> detect_time_failure_pattern (fixed_clock base_time)
     [Pod ''pod-1'' ''Failed'' (Naive (base_time - seconds 310))
        (Some (Naive (base_time - seconds 10))),
      Pod ''pod-2'' ''Running'' (Naive (base_time - seconds 290)) None,
      Pod ''pod-3'' ''Failed'' (Naive (base_time - minutes 10)) (Some (Naive base_time)),
      Pod ''pod-4'' ''Error'' (Naive (base_time - seconds 290))
        (Some (Naive (base_time + seconds 10)))]
     (minutes 5) (seconds 15)
   = Inr
     [Pod ''pod-1'' ''Failed'' (Naive (base_time - seconds 310))
        (Some (Naive (base_time - seconds 10))),
      Pod ''pod-4'' ''Error'' (Naive (base_time - seconds 290))
        (Some (Naive (base_time + seconds 10)))]
   \<and> detect_time_failure_pattern (fixed_clock base_time)
     [Pod ''pod-1'' ''Failed'' (Naive (base_time - seconds 310))
        (Some (Naive (base_time - seconds 10))),
      Pod ''pod-2'' ''Running'' (Naive (base_time - seconds 290)) None,
      Pod ''pod-3'' ''Failed'' (Naive (base_time - minutes 10))
        (Some (Aware utc base_time 0))]
     (minutes 5) (seconds 15)
   = Inl TypeError"
  using
    detect_returns_filtered_subsequence
    [of "fixed_clock base_time"
      "[Pod ''pod-1'' ''Failed'' (Naive (base_time - seconds 310))
          (Some (Naive (base_time - seconds 10))),
        Pod ''pod-2'' ''Running'' (Naive (base_time - seconds 290)) None,
        Pod ''pod-3'' ''Failed'' (Naive (base_time - minutes 10)) (Some (Naive base_time)),
        Pod ''pod-4'' ''Error'' (Naive (base_time - seconds 290))
          (Some (Naive (base_time + seconds 10)))]"
      "minutes 5" "seconds 15" base_time]
    detect_returns_filtered_subsequence
    [of "fixed_clock base_time"
      "[Pod ''pod-1'' ''Failed'' (Naive (base_time - seconds 310))
          (Some (Naive (base_time - seconds 10))),
        Pod ''pod-2'' ''Running'' (Naive (base_time - seconds 290)) None,
        Pod ''pod-3'' ''Failed'' (Naive (base_time - minutes 10))
          (Some (Aware utc base_time 0))]"
      "minutes 5" "seconds 15" base_time]
  by (simp add: error_defs eval_defs)

text \<open>
  Without the condition on the loop body nothing is returned: under an expected failure
  time of \<^verbatim>\<open>timedelta.max\<close> the difference for a pod that failed 10 minutes after
  its start would need minus 1000000000 days.
\<close>

theorem detect_returns_counterexample:
  "in_timedelta_range timedelta_max
   \<and> valid_pod (Pod ''pod-1'' ''Failed'' (Naive (base_time - minutes 10))
       (Some (Naive base_time)))
   \<and> detect_time_failure_pattern (fixed_clock base_time)
       [Pod ''pod-1'' ''Failed'' (Naive (base_time - minutes 10)) (Some (Naive base_time))]
       timedelta_max default_tolerance
     = Inl OverflowError"
  by (simp add: in_timedelta_range_def valid_pod_def datetime_max_us_def eval_defs)

text \<open>
  C3. A pod whose status is none of Failed, Error and CrashLoopBackOff is never an element
  of the returned list, whatever its timestamps are.
\<close>

theorem non_terminal_status_never_in_result:
  assumes "detect_time_failure_pattern clk pods e t = Inr r"
    and "status p \<notin> {''Failed'', ''Error'', ''CrashLoopBackOff''}"
  shows "p \<notin> set r"
proof
  assume "p \<in> set r"
  then have "matches e t p"
    using detect_result(2) [OF assms(1)] by simp
  then have "status p \<in> set terminal_states"
    by (simp add: matches_def passes_gates_def)
  with assms(2) show False
    by (simp only: terminal_states_set)
qed

theorem non_terminal_status_never_in_result_witness:
  "detect_time_failure_pattern (fixed_clock base_time)
     [Pod ''pod-1'' ''Running'' (Naive (base_time - minutes 10)) (Some (Naive base_time)),
      Pod ''pod-2'' ''Pending'' (Naive (base_time - minutes 10)) (Some (Naive base_time)),
      Pod ''pod-3'' ''Failed'' (Naive (base_time - seconds 605))
        (Some (Naive (base_time - seconds 5)))]
     default_expected_failure_time default_tolerance
   = Inr [Pod ''pod-3'' ''Failed'' (Naive (base_time - seconds 605))
            (Some (Naive (base_time - seconds 5)))]
   \<and> Pod ''pod-2'' ''Pending'' (Naive (base_time - minutes 10)) (Some (Naive base_time))
     \<notin> set [Pod ''pod-3'' ''Failed'' (Naive (base_time - seconds 605))
               (Some (Naive (base_time - seconds 5)))]"
proof -
  have h: "detect_time_failure_pattern (fixed_clock base_time)
     [Pod ''pod-1'' ''Running'' (Naive (base_time - minutes 10)) (Some (Naive base_time)),
      Pod ''pod-2'' ''Pending'' (Naive (base_time - minutes 10)) (Some (Naive base_time)),
      Pod ''pod-3'' ''Failed'' (Naive (base_time - seconds 605))
        (Some (Naive (base_time - seconds 5)))]
     default_expected_failure_time default_tolerance
   = Inr [Pod ''pod-3'' ''Failed'' (Naive (base_time - seconds 605))
            (Some (Naive (base_time - seconds 5)))]"
    by (simp add: eval_defs)
  have s: "status (Pod ''pod-2'' ''Pending'' (Naive (base_time - minutes 10))
        (Some (Naive base_time)))
       \<notin> {''Failed'', ''Error'', ''CrashLoopBackOff''}"
    by (simp add: Pod_def)
  show ?thesis
    using h non_terminal_status_never_in_result [OF h s] by simp
qed

text \<open>
  C4. A pod with a terminal-failure status (Failed, Error or CrashLoopBackOff) and no
  failure time is never an element of the returned list.
\<close>

theorem missing_failure_time_never_in_result:
  assumes "detect_time_failure_pattern clk pods e t = Inr r"
    and "status p \<in> {''Failed'', ''Error'', ''CrashLoopBackOff''}"
    and "failure_time p = None"
  shows "p \<notin> set r"
proof
  assume "p \<in> set r"
  then have "matches e t p"
    using detect_result(2) [OF assms(1)] by simp
  then have "failure_time p \<noteq> None"
    by (simp add: matches_def passes_gates_def)
  with assms(3) show False
    by simp
qed

theorem missing_failure_time_never_in_result_witness:
  "detect_time_failure_pattern (fixed_clock base_time)
     [Pod ''pod-1'' ''Failed'' (Naive (base_time - minutes 10)) None,
      Pod ''pod-2'' ''Error'' (Naive (base_time - minutes 10)) (Some (Naive base_time))]
     default_expected_failure_time default_tolerance
   = Inr [Pod ''pod-2'' ''Error'' (Naive (base_time - minutes 10)) (Some (Naive base_time))]
   \<and> Pod ''pod-1'' ''Failed'' (Naive (base_time - minutes 10)) None
     \<notin> set [Pod ''pod-2'' ''Error'' (Naive (base_time - minutes 10))
               (Some (Naive base_time))]"
proof -
  have h: "detect_time_failure_pattern (fixed_clock base_time)
     [Pod ''pod-1'' ''Failed'' (Naive (base_time - minutes 10)) None,
      Pod ''pod-2'' ''Error'' (Naive (base_time - minutes 10)) (Some (Naive base_time))]
     default_expected_failure_time default_tolerance
   = Inr [Pod ''pod-2'' ''Error'' (Naive (base_time - minutes 10)) (Some (Naive base_time))]"
    by (simp add: eval_defs)
  have s: "status (Pod ''pod-1'' ''Failed'' (Naive (base_time - minutes 10)) None)
       \<in> {''Failed'', ''Error'', ''CrashLoopBackOff''}"
    by (simp add: Pod_def)
  have f: "failure_time (Pod ''pod-1'' ''Failed'' (Naive (base_time - minutes 10)) None)
       = None"
    by (simp add: Pod_def)
  show ?thesis
    using h missing_failure_time_never_in_result [OF h s f] by simp
qed

text \<open>
  C2 (as amended). For a pod of the input that passes the two gates, membership in the
  returned list is decided by the deviation alone: the deviation exists, and the pod is in
  the result if and only if \<open>\<bar>uptime - expected_failure_time\<bar> \<le> tolerance\<close>. The
  bound is inclusive: a deviation equal to the tolerance matches, and so does an uptime
  equal to the expected failure time under any tolerance that is not negative.
\<close>

theorem gated_pod_in_result_iff_within_tolerance:
  assumes "detect_time_failure_pattern clk pods e t = Inr r"
    and "p \<in> set pods"
    and "passes_gates p"
  shows "\<exists>d. deviation now p e = Inr d
           \<and> (p \<in> set r \<longleftrightarrow> d \<le> t)
           \<and> (d = t \<longrightarrow> p \<in> set r)
           \<and> (uptime now p = Inr e \<and> 0 \<le> t \<longrightarrow> p \<in> set r)"
proof -
  have "first_error e pods = None"
    using assms(1) by (rule detect_result(1))
  then have "pod_error e p = None"
    using assms(2) by (simp add: first_error_None_iff list_all_iff)
  then obtain up where u: "datetime_sub (the (failure_time p)) (start_time p) = Inr up"
    using assms(3) by (auto simp: pod_error_None_iff)
  have up: "uptime now p = Inr up"
    using u by (simp add: uptime_gated [OF assms(3)])
  have d: "deviation now p e = Inr \<bar>up - e\<bar>"
    using up by (simp add: deviation_def)
  have "r = filter (matches e t) pods"
    using assms(1) by (rule detect_result(2))
  then have "p \<in> set r \<longleftrightarrow> \<bar>up - e\<bar> \<le> t"
    using assms(2,3) u by (simp add: matches_def)
  then show ?thesis
    using d up by auto
qed

text \<open>
  Scenario E of the specification: the pod that ran exactly 10 minutes is kept under the
  default parameters.
\<close>

theorem gated_pod_in_result_iff_within_tolerance_witness:
  "detect_time_failure_pattern (fixed_clock base_time)
     [Pod ''pod-1'' ''Failed'' (Naive (base_time - minutes 10)) None,
      Pod ''pod-2'' ''Error'' (Naive (base_time - minutes 10)) (Some (Naive base_time))]
     default_expected_failure_time default_tolerance
   = Inr [Pod ''pod-2'' ''Error'' (Naive (base_time - minutes 10)) (Some (Naive base_time))]
   \<and> passes_gates
       (Pod ''pod-2'' ''Error'' (Naive (base_time - minutes 10)) (Some (Naive base_time)))
   \<and> uptime base_time
       (Pod ''pod-2'' ''Error'' (Naive (base_time - minutes 10)) (Some (Naive base_time)))
     = Inr default_expected_failure_time
   \<and> deviation base_time
       (Pod ''pod-2'' ''Error'' (Naive (base_time - minutes 10)) (Some (Naive base_time)))
       default_expected_failure_time
     = Inr 0"
proof -
  have h: "detect_time_failure_pattern (fixed_clock base_time)
     [Pod ''pod-1'' ''Failed'' (Naive (base_time - minutes 10)) None,
      Pod ''pod-2'' ''Error'' (Naive (base_time - minutes 10)) (Some (Naive base_time))]
     default_expected_failure_time default_tolerance
   = Inr [Pod ''pod-2'' ''Error'' (Naive (base_time - minutes 10)) (Some (Naive base_time))]"
    by (simp add: eval_defs)
  have m: "Pod ''pod-2'' ''Error'' (Naive (base_time - minutes 10)) (Some (Naive base_time))
      \<in> set [Pod ''pod-1'' ''Failed'' (Naive (base_time - minutes 10)) None,
               Pod ''pod-2'' ''Error'' (Naive (base_time - minutes 10))
                 (Some (Naive base_time))]"
    by simp
  have g: "passes_gates
      (Pod ''pod-2'' ''Error'' (Naive (base_time - minutes 10)) (Some (Naive base_time)))"
    by (simp add: passes_gates_def Pod_def terminal_states_def)
  have u: "uptime base_time
       (Pod ''pod-2'' ''Error'' (Naive (base_time - minutes 10)) (Some (Naive base_time)))
     = Inr default_expected_failure_time"
    by (simp add: eval_defs)
  have d: "deviation base_time
       (Pod ''pod-2'' ''Error'' (Naive (base_time - minutes 10)) (Some (Naive base_time)))
       default_expected_failure_time
     = Inr 0"
    by (simp add: eval_defs)
  show ?thesis
    using h g u d gated_pod_in_result_iff_within_tolerance [OF h m g, of base_time]
    by simp
qed

text \<open>
  The claim without the gates fails: a running pod started 10 minutes before the clock
  reading has a deviation of zero under the default parameters, and is not returned.
\<close>

theorem ungated_pod_within_tolerance_counterexample:
  "deviation base_time (Pod ''pod-1'' ''Running'' (Naive (base_time - minutes 10)) None)
     default_expected_failure_time = Inr 0
   \<and> 0 \<le> default_tolerance
   \<and> detect_time_failure_pattern (fixed_clock base_time)
       [Pod ''pod-1'' ''Running'' (Naive (base_time - minutes 10)) None]
       default_expected_failure_time default_tolerance
     = Inr []"
  by (simp add: eval_defs)

text \<open>
  C5 (as amended). The uptime of a pod is \<open>failure_time - start_time\<close> when the status is
  a terminal-failure state and the failure time is present; the reading of the wall
  clock, a naive timestamp, minus \<open>start_time\<close> when that condition fails and the status is
  Running; and zero otherwise, in particular for a terminal-failure status without a
  failure time. The two subtractions are those of Python's datetimes: two naive
  timestamps, or two aware ones, give their difference; a naive timestamp and an aware one
  give no duration but a \<^verbatim>\<open>TypeError\<close>.
\<close>

theorem uptime_by_cases:
  "(status p \<in> {''Failed'', ''Error'', ''CrashLoopBackOff''} \<and> failure_time p = Some f
      \<longrightarrow> uptime now p = datetime_sub f (start_time p))
   \<and> (\<not> (status p \<in> {''Failed'', ''Error'', ''CrashLoopBackOff''} \<and> failure_time p \<noteq> None)
      \<and> status p = ''Running''
      \<longrightarrow> uptime now p = datetime_sub (Naive now) (start_time p))
   \<and> (\<not> (status p \<in> {''Failed'', ''Error'', ''CrashLoopBackOff''} \<and> failure_time p \<noteq> None)
      \<and> status p \<noteq> ''Running''
      \<longrightarrow> uptime now p = Inr 0)
   \<and> (status p \<in> {''Failed'', ''Error'', ''CrashLoopBackOff''} \<and> failure_time p = None
      \<longrightarrow> uptime now p = Inr 0)
   \<and> datetime_sub (Naive a) (Naive b) = Inr (a - b)
   \<and> datetime_sub (Aware z a oa) (Aware z' b ob)
       = Inr (if z = z' then a - b else (a - oa) - (b - ob))
   \<and> datetime_sub (Naive a) (Aware z b ob) = Inl TypeError
   \<and> datetime_sub (Aware z a oa) (Naive b) = Inl TypeError"
proof -
  have "status p = ''Running'' \<Longrightarrow> status p \<notin> set terminal_states"
    by (simp add: terminal_states_def)
  then show ?thesis
    unfolding uptime_def terminal_states_set [symmetric]
    by (auto simp: datetime_sub_simps)
qed

text \<open>
  A failed pod that ran 10 minutes; two running pods, with and without a failure time,
  started 15 minutes before the clock reading; a pending pod; a failed pod without a
  failure time; and a failed pod whose timestamps are in two time zones, started at 07:55
  UTC and failed at 09:00 in a zone one hour ahead of UTC.
\<close>

theorem uptime_by_cases_witness:
  "uptime base_time (Pod ''pod-1'' ''Failed'' (Naive (base_time - minutes 11))
      (Some (Naive (base_time - minutes 1)))) = Inr (minutes 10)
   \<and> uptime base_time (Pod ''pod-2'' ''Running'' (Naive (base_time - minutes 15)) None)
     = Inr (minutes 15)
   \<and> uptime base_time (Pod ''pod-3'' ''Running'' (Naive (base_time - minutes 15))
      (Some (Naive (base_time - minutes 5)))) = Inr (minutes 15)
   \<and> uptime base_time (Pod ''pod-4'' ''Pending'' (Naive (base_time - minutes 15))
      (Some (Naive (base_time - minutes 5)))) = Inr 0
   \<and> uptime base_time (Pod ''pod-5'' ''Failed'' (Naive (base_time - minutes 10)) None)
     = Inr 0
   \<and> uptime base_time (Pod ''pod-6'' ''Failed'' (Aware utc (base_time - minutes 5) 0)
      (Some (Aware 1 (base_time + minutes 60) (minutes 60)))) = Inr (minutes 5)"
  using
    uptime_by_cases [where p = "Pod ''pod-1'' ''Failed'' (Naive (base_time - minutes 11))
      (Some (Naive (base_time - minutes 1)))" and f = "Naive (base_time - minutes 1)"
      and now = base_time and a = "base_time - minutes 1" and b = "base_time - minutes 11"]
    uptime_by_cases [where p = "Pod ''pod-2'' ''Running'' (Naive (base_time - minutes 15))
      None" and now = base_time and a = base_time and b = "base_time - minutes 15"]
    uptime_by_cases [where p = "Pod ''pod-3'' ''Running'' (Naive (base_time - minutes 15))
      (Some (Naive (base_time - minutes 5)))" and now = base_time and a = base_time
      and b = "base_time - minutes 15"]
    uptime_by_cases [where p = "Pod ''pod-4'' ''Pending'' (Naive (base_time - minutes 15))
      (Some (Naive (base_time - minutes 5)))" and now = base_time]
    uptime_by_cases [where p = "Pod ''pod-5'' ''Failed'' (Naive (base_time - minutes 10))
      None" and now = base_time]
    uptime_by_cases [where p = "Pod ''pod-6'' ''Failed'' (Aware utc (base_time - minutes 5) 0)
      (Some (Aware 1 (base_time + minutes 60) (minutes 60)))"
      and f = "Aware 1 (base_time + minutes 60) (minutes 60)" and now = base_time
      and z = 1 and a = "base_time + minutes 60" and oa = "minutes 60"
      and z' = utc and b = "base_time - minutes 5" and ob = 0]
  by (simp add: Pod_def minutes_def base_time_def utc_def)

text \<open>
  The claim as stated fails where a subtraction has no result: a running pod whose start
  time is aware (here in UTC) has no uptime, since the reading of the wall clock is naive.
\<close>

theorem uptime_counterexample:
  "status (Pod ''pod-1'' ''Running'' (Aware utc (base_time - minutes 5) 0) None)
     = ''Running''
   \<and> valid_pod (Pod ''pod-1'' ''Running'' (Aware utc (base_time - minutes 5) 0) None)
   \<and> uptime base_time (Pod ''pod-1'' ''Running'' (Aware utc (base_time - minutes 5) 0) None)
     = Inl TypeError"
  by (simp add: valid_pod_def datetime_max_us_def eval_defs)

text \<open>
  C6. The outcome of \<open>detect_time_failure_pattern\<close> does not depend on the wall clock:
  under any two clocks the same pods and parameters give the same outcome. The reason is
  that a pod that passes the two gates has its uptime computed as
  \<open>failure_time - start_time\<close>, whatever the clock reads: the Running branch of
  \<open>uptime\<close> is not reached for it.
\<close>

theorem detect_independent_of_clock:
  "detect_time_failure_pattern clk1 pods e t = detect_time_failure_pattern clk2 pods e t
   \<and> (passes_gates p \<longrightarrow>
        uptime now1 p = datetime_sub (the (failure_time p)) (start_time p)
      \<and> uptime now2 p = uptime now1 p)"
proof (intro conjI impI)
  show "detect_time_failure_pattern clk1 pods e t = detect_time_failure_pattern clk2 pods e t"
    by (simp only: detect_filter)
next
  assume g: "passes_gates p"
  show "uptime now1 p = datetime_sub (the (failure_time p)) (start_time p)"
    using g by (rule uptime_gated)
  show "uptime now2 p = uptime now1 p"
    by (simp only: uptime_gated [OF g])
qed

text \<open>
  The third test, read one hour apart: the running pods are dropped at both instants,
  although their uptimes differ by that hour.
\<close>

theorem detect_independent_of_clock_witness:
  "detect_time_failure_pattern (fixed_clock base_time)
     [Pod ''pod-1'' ''Running'' (Naive (base_time - minutes 15)) None,
      Pod ''pod-2'' ''Running'' (Naive (base_time - minutes 5)) None,
      Pod ''pod-3'' ''Failed'' (Naive (base_time - seconds 605))
        (Some (Naive (base_time - seconds 5)))]
     default_expected_failure_time default_tolerance
   = detect_time_failure_pattern (fixed_clock (base_time + minutes 60))
     [Pod ''pod-1'' ''Running'' (Naive (base_time - minutes 15)) None,
      Pod ''pod-2'' ''Running'' (Naive (base_time - minutes 5)) None,
      Pod ''pod-3'' ''Failed'' (Naive (base_time - seconds 605))
        (Some (Naive (base_time - seconds 5)))]
     default_expected_failure_time default_tolerance
   \<and> passes_gates
       (Pod ''pod-3'' ''Failed'' (Naive (base_time - seconds 605))
         (Some (Naive (base_time - seconds 5))))
   \<and> uptime (base_time + minutes 60)
       (Pod ''pod-3'' ''Failed'' (Naive (base_time - seconds 605))
         (Some (Naive (base_time - seconds 5))))
     = Inr (seconds 600)
   \<and> uptime base_time (Pod ''pod-2'' ''Running'' (Naive (base_time - minutes 5)) None)
     \<noteq> uptime (base_time + minutes 60)
         (Pod ''pod-2'' ''Running'' (Naive (base_time - minutes 5)) None)"
proof -
  have g: "passes_gates
       (Pod ''pod-3'' ''Failed'' (Naive (base_time - seconds 605))
         (Some (Naive (base_time - seconds 5))))"
    by (simp add: passes_gates_def Pod_def terminal_states_def)
  have r: "uptime base_time (Pod ''pod-2'' ''Running'' (Naive (base_time - minutes 5)) None)
     \<noteq> uptime (base_time + minutes 60)
         (Pod ''pod-2'' ''Running'' (Naive (base_time - minutes 5)) None)"
    by (simp add: eval_defs)
  show ?thesis
    using g r
      detect_independent_of_clock [of "fixed_clock base_time"
        "[Pod ''pod-1'' ''Running'' (Naive (base_time - minutes 15)) None,
          Pod ''pod-2'' ''Running'' (Naive (base_time - minutes 5)) None,
          Pod ''pod-3'' ''Failed'' (Naive (base_time - seconds 605))
            (Some (Naive (base_time - seconds 5)))]"
        default_expected_failure_time default_tolerance
        "fixed_clock (base_time + minutes 60)"
        "Pod ''pod-3'' ''Failed'' (Naive (base_time - seconds 605))
           (Some (Naive (base_time - seconds 5)))"
        base_time "base_time + minutes 60"]
    by (simp add: Pod_def seconds_def datetime_sub_simps)
qed

text \<open>
  C7. The order of the two timestamps is not checked. For a pod with a terminal-failure
  status whose failure time lies before its start time, the uptime is the negative
  duration \<open>failure_time - start_time\<close>: it is not clamped to zero, and computing it
  raises nothing. That negative value is what the matching test uses: the deviation is
  \<open>\<bar>failure_time - start_time - expected\<bar>\<close>, and such a pod of the input is returned
  if and only if that deviation is at most the tolerance.
\<close>

theorem negative_uptime_propagates:
  assumes "status p \<in> {''Failed'', ''Error'', ''CrashLoopBackOff''}"
    and "failure_time p = Some f"
    and "datetime_lt f (start_time p) = Inr True"
  shows "\<exists>d. datetime_sub f (start_time p) = Inr d
           \<and> d < 0
           \<and> (f = Naive a \<and> start_time p = Naive s \<longrightarrow> d = a - s)
           \<and> uptime now p = Inr d
           \<and> deviation now p e = Inr \<bar>d - e\<bar>
           \<and> (p \<in> set pods \<and> detect_time_failure_pattern clk pods e t = Inr r
                \<longrightarrow> (p \<in> set r \<longleftrightarrow> \<bar>d - e\<bar> \<le> t))"
proof -
  obtain d where d: "datetime_sub f (start_time p) = Inr d" and n: "d < 0"
    using assms(3) by (auto simp: datetime_lt_def split: sum.splits)
  have g: "passes_gates p"
    using assms(1,2) by (simp add: passes_gates_def terminal_states_set)
  have u: "uptime now p = Inr d"
    using assms(2) d by (simp add: uptime_gated [OF g])
  have v: "deviation now p e = Inr \<bar>d - e\<bar>"
    using u by (simp add: deviation_def)
  have m: "matches e t p \<longleftrightarrow> \<bar>d - e\<bar> \<le> t"
    using g assms(2) d by (simp add: matches_def)
  have i: "p \<in> set r \<longleftrightarrow> \<bar>d - e\<bar> \<le> t"
    if "p \<in> set pods" and "detect_time_failure_pattern clk pods e t = Inr r"
    using detect_result(2) [OF that(2)] that(1) m by simp
  have x: "d = a - s" if "f = Naive a" and "start_time p = Naive s"
    using d that by (simp add: datetime_sub_simps)
  show ?thesis
    using d n u v i x by blast
qed

text \<open>
  A pod that failed 10 minutes before it started has an uptime of minus 10 minutes. With an
  expected failure time of minus 10 minutes it is returned; a clamped uptime of zero would
  be 10 minutes away from that.
\<close>

theorem negative_uptime_propagates_witness:
  "datetime_lt (Naive (base_time - minutes 10)) (Naive base_time) = Inr True
   \<and> uptime base_time
       (Pod ''pod-1'' ''Failed'' (Naive base_time) (Some (Naive (base_time - minutes 10))))
     = Inr (minutes (- 10))
   \<and> detect_time_failure_pattern (fixed_clock base_time)
       [Pod ''pod-1'' ''Failed'' (Naive base_time) (Some (Naive (base_time - minutes 10)))]
       (minutes (- 10)) default_tolerance
     = Inr [Pod ''pod-1'' ''Failed'' (Naive base_time)
              (Some (Naive (base_time - minutes 10)))]
   \<and> \<bar>(base_time - minutes 10) - base_time - minutes (- 10)\<bar> \<le> default_tolerance"
proof -
  have s: "status (Pod ''pod-1'' ''Failed'' (Naive base_time)
        (Some (Naive (base_time - minutes 10))))
      \<in> {''Failed'', ''Error'', ''CrashLoopBackOff''}"
    by (simp add: Pod_def)
  have f: "failure_time (Pod ''pod-1'' ''Failed'' (Naive base_time)
        (Some (Naive (base_time - minutes 10))))
      = Some (Naive (base_time - minutes 10))"
    by (simp add: Pod_def)
  have l: "datetime_lt (Naive (base_time - minutes 10))
        (start_time (Pod ''pod-1'' ''Failed'' (Naive base_time)
          (Some (Naive (base_time - minutes 10)))))
      = Inr True"
    by (simp add: Pod_def minutes_def datetime_lt_def datetime_sub_simps)
  have h: "detect_time_failure_pattern (fixed_clock base_time)
       [Pod ''pod-1'' ''Failed'' (Naive base_time) (Some (Naive (base_time - minutes 10)))]
       (minutes (- 10)) default_tolerance
     = Inr [Pod ''pod-1'' ''Failed'' (Naive base_time)
              (Some (Naive (base_time - minutes 10)))]"
    by (simp add: eval_defs)
  show ?thesis
    using h l negative_uptime_propagates [OF s f l, of "base_time - minutes 10" base_time
        base_time "minutes (- 10)"
        "[Pod ''pod-1'' ''Failed'' (Naive base_time)
            (Some (Naive (base_time - minutes 10)))]"
        "fixed_clock base_time" default_tolerance
        "[Pod ''pod-1'' ''Failed'' (Naive base_time)
            (Some (Naive (base_time - minutes 10)))]"]
    by (auto simp: Pod_def minutes_def datetime_sub_simps)
qed

text \<open>
  C8 (as amended). \<open>detect_time_failure_pattern\<close> has no error outcome of its own and
  validates nothing; it ends on every input. It returns a list exactly when the loop body
  raises on no pod: every pod that passes the two gates has two timestamps that can be
  subtracted (both naive or both aware) and an \<open>uptime - expected_failure_time\<close> that is
  a representable timedelta. Otherwise the call raises what the loop body raises on the
  first such pod: the \<^verbatim>\<open>TypeError\<close> of the datetime subtraction or the
  \<^verbatim>\<open>OverflowError\<close> of the timedelta subtraction. In particular it returns a list
  for pods whose timestamps are \<^verbatim>\<open>datetime\<close> values of one awareness per pod, any
  tolerance, and any expected failure time of at most 996347938 days in magnitude,
  negative ones included.
\<close>

theorem detect_raises_from_subtractions_only:
  "((\<exists>r. detect_time_failure_pattern clk pods e t = Inr r)
      \<longleftrightarrow> list_all (\<lambda>p. pod_error e p = None) pods)
   \<and> (first_error e pods = Some err
        \<longrightarrow> detect_time_failure_pattern clk pods e t = Inl err)
   \<and> (detect_time_failure_pattern clk pods e t = Inl err
        \<longrightarrow> (\<exists>p\<in>set pods. pod_error e p = Some err))
   \<and> (pod_error e p = None \<longleftrightarrow>
        (passes_gates p \<longrightarrow>
           (\<exists>up. datetime_sub (the (failure_time p)) (start_time p) = Inr up
                 \<and> in_timedelta_range (up - e))))
   \<and> (datetime_sub a b = Inl err \<longleftrightarrow>
        err = TypeError \<and> (utcoffset a = None) \<noteq> (utcoffset b = None))
   \<and> (list_all valid_pod pods \<and> list_all same_awareness pods \<and> \<bar>e\<bar> \<le> days 996347938
        \<longrightarrow> (\<exists>r. detect_time_failure_pattern clk pods e t = Inr r))"
proof (intro conjI impI)
  show "(\<exists>r. detect_time_failure_pattern clk pods e t = Inr r)
      \<longleftrightarrow> list_all (\<lambda>p. pod_error e p = None) pods"
    unfolding first_error_None_iff [symmetric]
    by (auto simp: detect_filter split: option.splits)
next
  assume "first_error e pods = Some err"
  then show "detect_time_failure_pattern clk pods e t = Inl err"
    by (simp add: detect_filter)
next
  assume "detect_time_failure_pattern clk pods e t = Inl err"
  then have "first_error e pods = Some err"
    by (auto simp: detect_filter split: option.splits)
  then show "\<exists>p\<in>set pods. pod_error e p = Some err"
    by (rule first_error_Some)
next
  show "pod_error e p = None \<longleftrightarrow>
        (passes_gates p \<longrightarrow>
           (\<exists>up. datetime_sub (the (failure_time p)) (start_time p) = Inr up
                 \<and> in_timedelta_range (up - e)))"
    by (rule pod_error_None_iff)
next
  show "datetime_sub a b = Inl err \<longleftrightarrow>
        err = TypeError \<and> (utcoffset a = None) \<noteq> (utcoffset b = None)"
    by (rule datetime_sub_error)
next
  assume "list_all valid_pod pods \<and> list_all same_awareness pods \<and> \<bar>e\<bar> \<le> days 996347938"
  then have "first_error e pods = None"
    by (simp add: first_error_bounded)
  then show "\<exists>r. detect_time_failure_pattern clk pods e t = Inr r"
    by (simp add: detect_filter)
qed

text \<open>
  Negative parameters are accepted: an expected failure time of minus 10 minutes with a
  tolerance of minus 30 seconds returns the empty list. An expected failure time of
  \<^verbatim>\<open>timedelta.max\<close> is refused for a pod that failed 15 minutes after its start,
  and so is, under the default parameters, a pod with a naive start time and an aware
  failure time.
\<close>

theorem detect_raises_from_subtractions_only_witness:
  "list_all valid_pod
     [Pod ''pod-1'' ''Failed'' (Naive (base_time - minutes 5)) (Some (Naive base_time)),
      Pod ''pod-2'' ''Error'' (Naive (base_time - minutes 20))
        (Some (Naive (base_time - minutes 5)))]
   \<and> list_all same_awareness
     [Pod ''pod-1'' ''Failed'' (Naive (base_time - minutes 5)) (Some (Naive base_time)),
      Pod ''pod-2'' ''Error'' (Naive (base_time - minutes 20))
        (Some (Naive (base_time - minutes 5)))]
   \<and> \<bar>minutes (- 10)\<bar> \<le> days 996347938
   \<and> detect_time_failure_pattern (fixed_clock base_time)
       [Pod ''pod-1'' ''Failed'' (Naive (base_time - minutes 5)) (Some (Naive base_time)),
        Pod ''pod-2'' ''Error'' (Naive (base_time - minutes 20))
          (Some (Naive (base_time - minutes 5)))]
       (minutes (- 10)) (seconds (- 30))
     = Inr []
   \<and> first_error timedelta_max
       [Pod ''pod-2'' ''Error'' (Naive (base_time - minutes 20))
          (Some (Naive (base_time - minutes 5)))]
     = Some OverflowError
   \<and> detect_time_failure_pattern (fixed_clock base_time)
       [Pod ''pod-2'' ''Error'' (Naive (base_time - minutes 20))
          (Some (Naive (base_time - minutes 5)))]
       timedelta_max (seconds 30)
     = Inl OverflowError
   \<and> first_error default_expected_failure_time
       [Pod ''pod-3'' ''Failed'' (Naive (base_time - minutes 10))
          (Some (Aware utc base_time 0))]
     = Some TypeError
   \<and> detect_time_failure_pattern (fixed_clock base_time)
       [Pod ''pod-3'' ''Failed'' (Naive (base_time - minutes 10))
          (Some (Aware utc base_time 0))]
       default_expected_failure_time default_tolerance
     = Inl TypeError"
proof -
  have v: "list_all valid_pod
     [Pod ''pod-1'' ''Failed'' (Naive (base_time - minutes 5)) (Some (Naive base_time)),
      Pod ''pod-2'' ''Error'' (Naive (base_time - minutes 20))
        (Some (Naive (base_time - minutes 5)))]"
    by (simp add: valid_pod_def datetime_max_us_def Pod_def base_time_def minutes_def)
  have w: "list_all same_awareness
     [Pod ''pod-1'' ''Failed'' (Naive (base_time - minutes 5)) (Some (Naive base_time)),
      Pod ''pod-2'' ''Error'' (Naive (base_time - minutes 20))
        (Some (Naive (base_time - minutes 5)))]"
    by (simp add: same_awareness_def Pod_def)
  have b: "\<bar>minutes (- 10)\<bar> \<le> days 996347938"
    by (simp add: minutes_def days_def)
  have e: "detect_time_failure_pattern (fixed_clock base_time)
       [Pod ''pod-1'' ''Failed'' (Naive (base_time - minutes 5)) (Some (Naive base_time)),
        Pod ''pod-2'' ''Error'' (Naive (base_time - minutes 20))
          (Some (Naive (base_time - minutes 5)))]
       (minutes (- 10)) (seconds (- 30))
     = Inr []"
    by (simp add: eval_defs)
  have o: "first_error timedelta_max
       [Pod ''pod-2'' ''Error'' (Naive (base_time - minutes 20))
          (Some (Naive (base_time - minutes 5)))]
     = Some OverflowError"
    by (simp add: error_defs eval_defs)
  have y: "first_error default_expected_failure_time
       [Pod ''pod-3'' ''Failed'' (Naive (base_time - minutes 10))
          (Some (Aware utc base_time 0))]
     = Some TypeError"
    by (simp add: error_defs eval_defs)
  show ?thesis
    using v w b e o y
      detect_raises_from_subtractions_only [where e = "minutes (- 10)"
        and pods = "[Pod ''pod-1'' ''Failed'' (Naive (base_time - minutes 5))
            (Some (Naive base_time)),
          Pod ''pod-2'' ''Error'' (Naive (base_time - minutes 20))
            (Some (Naive (base_time - minutes 5)))]"
        and clk = "fixed_clock base_time" and t = "seconds (- 30)"]
      detect_raises_from_subtractions_only [where e = timedelta_max
        and pods = "[Pod ''pod-2'' ''Error'' (Naive (base_time - minutes 20))
            (Some (Naive (base_time - minutes 5)))]"
        and clk = "fixed_clock base_time" and t = "seconds 30" and err = OverflowError]
      detect_raises_from_subtractions_only [where e = default_expected_failure_time
        and pods = "[Pod ''pod-3'' ''Failed'' (Naive (base_time - minutes 10))
            (Some (Aware utc base_time 0))]"
        and clk = "fixed_clock base_time" and t = default_tolerance and err = TypeError]
    by simp
qed

text \<open>
  The claim as stated fails on a negative expected failure time: with
  \<^verbatim>\<open>timedelta.min\<close>, a pod that failed two days after its start makes the subtraction
  raise.
\<close>

theorem detect_raises_counterexample:
  "in_timedelta_range timedelta_min
   \<and> in_timedelta_range default_tolerance
   \<and> valid_pod (Pod ''pod-1'' ''Failed'' (Naive (base_time - days 2))
       (Some (Naive base_time)))
   \<and> detect_time_failure_pattern (fixed_clock base_time)
       [Pod ''pod-1'' ''Failed'' (Naive (base_time - days 2)) (Some (Naive base_time))]
       timedelta_min default_tolerance
     = Inl OverflowError"
  by (simp add: in_timedelta_range_def valid_pod_def datetime_max_us_def eval_defs)

text \<open>
  C9. \<open>detect_time_failure_pattern\<close> is idempotent: applied to a list it returned, with
  the same parameters and at any later time, it returns that list again. Every pod of a
  returned list has a terminal-failure status and a failure time, so its stored fields
  decide whether it matches.
\<close>

theorem detect_idempotent:
  assumes "detect_time_failure_pattern clk pods e t = Inr r"
  shows "detect_time_failure_pattern clk' r e t = Inr r \<and> list_all passes_gates r"
proof -
  have n: "first_error e pods = None" and r: "r = filter (matches e t) pods"
    using assms by (rule detect_result)+
  have "set r \<subseteq> set pods"
    using r by auto
  with n have "first_error e r = None"
    by (rule first_error_subset)
  moreover have "filter (matches e t) r = r"
    using r by simp
  moreover have "list_all passes_gates r"
    using r by (simp add: list_all_iff matches_def)
  ultimately show ?thesis
    by (simp add: detect_filter)
qed

text \<open>
  The first test with a pod outside the window added: the three pods kept by the first
  call are kept by a second call on them, one hour later.
\<close>

theorem detect_idempotent_witness:
  "detect_time_failure_pattern (fixed_clock base_time)
     [Pod ''pod-1'' ''Failed'' (Naive (base_time - seconds 630))
        (Some (Naive (base_time - minutes 1))),
      Pod ''pod-0'' ''Failed'' (Naive (base_time - minutes 5)) (Some (Naive base_time)),
      Pod ''pod-2'' ''Error'' (Naive (base_time - seconds 615))
        (Some (Naive (base_time - seconds 15))),
      Pod ''pod-3'' ''CrashLoopBackOff'' (Naive (base_time - seconds 585))
        (Some (Naive (base_time + seconds 15)))]
     default_expected_failure_time default_tolerance
   = Inr
     [Pod ''pod-1'' ''Failed'' (Naive (base_time - seconds 630))
        (Some (Naive (base_time - minutes 1))),
      Pod ''pod-2'' ''Error'' (Naive (base_time - seconds 615))
        (Some (Naive (base_time - seconds 15))),
      Pod ''pod-3'' ''CrashLoopBackOff'' (Naive (base_time - seconds 585))
        (Some (Naive (base_time + seconds 15)))]
   \<and> detect_time_failure_pattern (fixed_clock (base_time + minutes 60))
     [Pod ''pod-1'' ''Failed'' (Naive (base_time - seconds 630))
        (Some (Naive (base_time - minutes 1))),
      Pod ''pod-2'' ''Error'' (Naive (base_time - seconds 615))
        (Some (Naive (base_time - seconds 15))),
      Pod ''pod-3'' ''CrashLoopBackOff'' (Naive (base_time - seconds 585))
        (Some (Naive (base_time + seconds 15)))]
     default_expected_failure_time default_tolerance
   = Inr
     [Pod ''pod-1'' ''Failed'' (Naive (base_time - seconds 630))
        (Some (Naive (base_time - minutes 1))),
      Pod ''pod-2'' ''Error'' (Naive (base_time - seconds 615))
        (Some (Naive (base_time - seconds 15))),
      Pod ''pod-3'' ''CrashLoopBackOff'' (Naive (base_time - seconds 585))
        (Some (Naive (base_time + seconds 15)))]"
proof -
  have h: "detect_time_failure_pattern (fixed_clock base_time)
     [Pod ''pod-1'' ''Failed'' (Naive (base_time - seconds 630))
        (Some (Naive (base_time - minutes 1))),
      Pod ''pod-0'' ''Failed'' (Naive (base_time - minutes 5)) (Some (Naive base_time)),
      Pod ''pod-2'' ''Error'' (Naive (base_time - seconds 615))
        (Some (Naive (base_time - seconds 15))),
      Pod ''pod-3'' ''CrashLoopBackOff'' (Naive (base_time - seconds 585))
        (Some (Naive (base_time + seconds 15)))]
     default_expected_failure_time default_tolerance
   = Inr
     [Pod ''pod-1'' ''Failed'' (Naive (base_time - seconds 630))
        (Some (Naive (base_time - minutes 1))),
      Pod ''pod-2'' ''Error'' (Naive (base_time - seconds 615))
        (Some (Naive (base_time - seconds 15))),
      Pod ''pod-3'' ''CrashLoopBackOff'' (Naive (base_time - seconds 585))
        (Some (Naive (base_time + seconds 15)))]"
    by (simp add: eval_defs)
  show ?thesis
    using h detect_idempotent [OF h, of "fixed_clock (base_time + minutes 60)"]
    by simp
qed

text \<open>
  C10 (as amended). Under a strictly negative tolerance no pod matches, since the deviation
  is an absolute value: \<open>detect_time_failure_pattern\<close> returns the empty list whenever
  it returns, that is whenever the loop body raises on no pod, and otherwise raises what
  the loop body raises on the first pod on which it raises: the \<^verbatim>\<open>TypeError\<close> of
  the datetime subtraction, or the \<^verbatim>\<open>OverflowError\<close> of the timedelta subtraction
  when \<open>uptime - expected_failure_time\<close> is not a representable timedelta.
\<close>

theorem negative_tolerance_matches_nothing:
  assumes "t < 0"
  shows "detect_time_failure_pattern clk pods e t =
           (case first_error e pods of None \<Rightarrow> Inr [] | Some err \<Rightarrow> Inl err)"
proof -
  have "filter (matches e t) pods = []"
    using assms by (rule negative_tolerance_no_match)
  then show ?thesis
    by (simp add: detect_filter split: option.split)
qed

theorem negative_tolerance_matches_nothing_witness:
  "seconds (- 30) < 0
   \<and> first_error default_expected_failure_time
       [Pod ''pod-1'' ''Failed'' (Naive (base_time - minutes 10)) (Some (Naive base_time)),
        Pod ''pod-2'' ''Running'' (Naive (base_time - minutes 10)) None]
     = None
   \<and> detect_time_failure_pattern (fixed_clock base_time)
       [Pod ''pod-1'' ''Failed'' (Naive (base_time - minutes 10)) (Some (Naive base_time)),
        Pod ''pod-2'' ''Running'' (Naive (base_time - minutes 10)) None]
       default_expected_failure_time (seconds (- 30))
     = Inr []"
proof -
  have l: "seconds (- 30) < 0"
    by (simp add: seconds_def)
  have n: "first_error default_expected_failure_time
       [Pod ''pod-1'' ''Failed'' (Naive (base_time - minutes 10)) (Some (Naive base_time)),
        Pod ''pod-2'' ''Running'' (Naive (base_time - minutes 10)) None]
     = None"
    by (simp add: error_defs eval_defs)
  show ?thesis
    using l n negative_tolerance_matches_nothing [OF l, of "fixed_clock base_time"
        "[Pod ''pod-1'' ''Failed'' (Naive (base_time - minutes 10)) (Some (Naive base_time)),
          Pod ''pod-2'' ''Running'' (Naive (base_time - minutes 10)) None]"
        default_expected_failure_time]
    by simp
qed

text \<open>
  A negative tolerance does not make the call return the empty list on every input: with
  an expected failure time of \<^verbatim>\<open>timedelta.max\<close> the subtraction raises first.
\<close>

theorem negative_tolerance_counterexample:
  "seconds (- 1) < 0
   \<and> in_timedelta_range (seconds (- 1))
   \<and> in_timedelta_range timedelta_max
   \<and> valid_pod (Pod ''pod-1'' ''Error'' (Naive (base_time - minutes 5))
       (Some (Naive base_time)))
   \<and> detect_time_failure_pattern (fixed_clock base_time)
       [Pod ''pod-1'' ''Error'' (Naive (base_time - minutes 5)) (Some (Naive base_time))]
       timedelta_max (seconds (- 1))
     = Inl OverflowError"
  by (simp add: in_timedelta_range_def valid_pod_def datetime_max_us_def eval_defs)

end
